theory Spec2Isabelle
  imports Complex_Main "HOL-Library.Log_Nat"
begin

section \<open>Data model (src/types.ts)\<close>

text \<open>
  A JavaScript \<open>number\<close> is modelled as a \<^typ>\<open>real\<close>, and the values
  \<open>NaN\<close> and \<open>Infinity\<close> are left out except where the code can produce one
  from finite operands (the remainder by zero of the position-update cycle, modelled as
  \<open>None\<close>). Arithmetic is exact, except in \<open>handleSplit\<close>: what is asked of a
  split is that computed times coincide, so there every addition and subtraction is
  rounded to the nearest double. Track ids are whole numbers and are kept as
  \<^typ>\<open>int\<close>.
  Field names follow the source; \<open>id\<close> and \<open>name\<close> of a track are written
  \<open>trackId\<close> and \<open>trackName\<close>, the \<open>id\<close> of an effect \<open>effectId\<close>, and the
  fields \<open>start\<close>, \<open>end\<close> of a loop region \<open>loopStart\<close>, \<open>loopEnd\<close>.
\<close>

record EQSettings =
  frequency :: real
  gain :: real
  q :: real

record CompressorSettings =
  threshold :: real
  ratio :: real
  attack :: real
  release :: real
  knee :: real

datatype EffectParams = EQ EQSettings | Compressor CompressorSettings

record Effect =
  effectId :: string
  params :: EffectParams

record AudioClip =
  clipId :: string
  fileId :: string
  name :: string
  startTime :: real
  startOffset :: real
  duration :: real
  sourceDuration :: real
  isSelected :: bool

datatype TrackType = Audio | Midi

record Track =
  trackId :: int
  trackName :: string
  trackType :: TrackType
  volume :: real
  pan :: real
  isMuted :: bool
  isSoloed :: bool
  effects :: "Effect list"
  clips :: "AudioClip list"

record LoopRegion =
  loopStart :: real
  loopEnd :: real

record ProjectState =
  tracks :: "Track list"
  loopRegion :: "LoopRegion option"

text \<open>\<open>Array.prototype.findIndex\<close>; the source's \<open>-1\<close> is \<open>None\<close>.\<close>

fun findIndex :: "('a \<Rightarrow> bool) \<Rightarrow> 'a list \<Rightarrow> nat option" where
  "findIndex p [] = None"
| "findIndex p (x # xs) =
     (if p x then Some 0 else map_option Suc (findIndex p xs))"

section \<open>Double-precision arithmetic\<close>

text \<open>
  Rounding to the nearest double (53 significant bits, ties to the even significand).
  \<open>binexp a\<close> is the binary exponent of a positive \<open>a\<close>, the \<open>e\<close> with
  \<open>2 ^ e \<le> a < 2 ^ (e + 1)\<close>; the spacing of the doubles around \<open>a\<close> is
  \<open>2 ^ (e - 52)\<close>. The range of the exponent is not bounded: overflow and subnormal
  numbers, far from any time on a timeline, are left out. \<open>dadd\<close> and \<open>dsub\<close>
  are the operators \<open>+\<close> and \<open>-\<close> on numbers.
\<close>

definition pow2 :: "int \<Rightarrow> real" where
  "pow2 e = (if 0 \<le> e then 2 ^ nat e else 1 / 2 ^ nat (- e))"

definition binexp :: "real \<Rightarrow> int" where
  "binexp a = (if 1 \<le> a then int (floorlog 2 (nat \<lfloor>a\<rfloor>)) - 1
               else - int (floorlog 2 (nat (\<lceil>1 / a\<rceil> - 1))))"

definition round_even :: "real \<Rightarrow> int" where
  "round_even y =
     (let n = \<lfloor>y\<rfloor>; f = y - of_int n
      in if f < 1 / 2 then n else if 1 / 2 < f then n + 1 else if even n then n else n + 1)"

definition fl :: "real \<Rightarrow> real" where
  "fl x = (if x = 0 then 0
           else (let u = pow2 (binexp \<bar>x\<bar> - 52) in u * of_int (round_even (x / u))))"

definition dadd :: "real \<Rightarrow> real \<Rightarrow> real" where
  "dadd x y = fl (x + y)"

definition dsub :: "real \<Rightarrow> real \<Rightarrow> real" where
  "dsub x y = fl (x - y)"

section \<open>Clip and track edits (src/components/DAWContainer.tsx)\<close>

definition SECONDS_PER_BEAT :: real where
  "SECONDS_PER_BEAT = 60 / 120"

definition SONG_DURATION_SECONDS :: real where
  "SONG_DURATION_SECONDS = 240"

text \<open>\<open>Math.round\<close>: the nearest integer, halves rounded up.\<close>

definition Math_round :: "real \<Rightarrow> real" where
  "Math_round x = of_int \<lfloor>x + 1 / 2\<rfloor>"

datatype EditType = Move | TrimStart | TrimEnd

text \<open>
  \<open>EditingAction\<close>: a clip gesture carries its type, the clip, the track id, the
  pointer's initial time and the snapshot \<open>initialClipState\<close>; a set-loop gesture
  carries its anchor time.
\<close>

datatype EditingAction =
    ClipEdit EditType AudioClip int real AudioClip
  | SetLoop real

text \<open>
  The branches of \<open>handleClipEditing\<close> (lines 267 to 286): the new geometry is computed
  from the snapshot \<open>initialClipState\<close> and written into \<open>clipToUpdate\<close>, the clip
  as it currently is in the project.
\<close>

definition applyEdit :: "EditType \<Rightarrow> AudioClip \<Rightarrow> real \<Rightarrow> AudioClip \<Rightarrow> AudioClip" where
  "applyEdit ty initialClipState delta clipToUpdate =
     (case ty of
        Move \<Rightarrow> clipToUpdate\<lparr>startTime := max 0 (startTime initialClipState + delta)\<rparr>
      | TrimStart \<Rightarrow>
          (let newStartTime = max 0 (startTime initialClipState + delta);
               newDuration = duration initialClipState - (newStartTime - startTime initialClipState);
               newStartOffset = startOffset initialClipState + (newStartTime - startTime initialClipState)
           in if newDuration > 0 \<and> newStartOffset \<ge> 0
              then clipToUpdate\<lparr>startTime := newStartTime, duration := newDuration,
                                startOffset := newStartOffset\<rparr>
              else clipToUpdate)
      | TrimEnd \<Rightarrow>
          (let newDuration = min (duration initialClipState + delta)
                                 (sourceDuration initialClipState - startOffset initialClipState)
           in if newDuration > 0 then clipToUpdate\<lparr>duration := newDuration\<rparr>
              else clipToUpdate))"

text \<open>
  Whether the branch of the edit writes to \<open>clipToUpdate\<close>: a move always does, a
  trim only when it is accepted.
\<close>

definition editWrites :: "EditType \<Rightarrow> AudioClip \<Rightarrow> real \<Rightarrow> bool" where
  "editWrites ty initialClipState delta =
     (case ty of
        Move \<Rightarrow> True
      | TrimStart \<Rightarrow>
          (let newStartTime = max 0 (startTime initialClipState + delta);
               newDuration = duration initialClipState - (newStartTime - startTime initialClipState);
               newStartOffset = startOffset initialClipState + (newStartTime - startTime initialClipState)
           in newDuration > 0 \<and> newStartOffset \<ge> 0)
      | TrimEnd \<Rightarrow>
          (let newDuration = min (duration initialClipState + delta)
                                 (sourceDuration initialClipState - startOffset initialClipState)
           in newDuration > 0))"

text \<open>
  The non-null assertions of the lookups (\<open>find(...)!\<close>) are unchecked at run time. When
  the track is gone, reading \<open>track.clips\<close> throws. When the clip is gone,
  \<open>clipToUpdate\<close> is \<open>undefined\<close> and the handler throws only if the branch
  writes to it; a rejected trim publishes the unchanged tracks.
\<close>

datatype error = TypeError

definition handleClipEditing ::
  "EditingAction option \<Rightarrow> bool \<Rightarrow> real \<Rightarrow> ProjectState \<Rightarrow> error + ProjectState" where
  "handleClipEditing editingAction isSnapping rawPointerTime projectState =
     (case editingAction of
        None \<Rightarrow> Inr projectState
      | Some (SetLoop anchor) \<Rightarrow> Inr projectState
      | Some (ClipEdit ty clip tid initialPointerTime initialClipState) \<Rightarrow>
          (let pointerTime =
                 (if isSnapping
                  then Math_round (rawPointerTime / SECONDS_PER_BEAT) * SECONDS_PER_BEAT
                  else rawPointerTime);
               delta = pointerTime - initialPointerTime
           in case findIndex (\<lambda>t. trackId t = tid) (tracks projectState) of
                None \<Rightarrow> Inl TypeError
              | Some i \<Rightarrow>
                  (let track = tracks projectState ! i
                   in case findIndex (\<lambda>c. clipId c = clipId clip) (clips track) of
                        None \<Rightarrow>
                          if editWrites ty initialClipState delta then Inl TypeError
                          else Inr projectState
                      | Some j \<Rightarrow>
                          Inr (projectState\<lparr>tracks := (tracks projectState)
                                 [i := track\<lparr>clips := (clips track)
                                    [j := applyEdit ty initialClipState delta (clips track ! j)]\<rparr>]\<rparr>))))"

text \<open>
  The clip invariants of the data model, with tolerance \<open>eps\<close>:
  \<open>startOffset \<ge> 0\<close>, \<open>duration > 0\<close>, \<open>startOffset + duration \<le> sourceDuration + eps\<close>.
\<close>

definition clip_inv :: "real \<Rightarrow> AudioClip \<Rightarrow> bool" where
  "clip_inv eps c \<longleftrightarrow>
     0 \<le> startOffset c \<and> 0 < duration c \<and> startOffset c + duration c \<le> sourceDuration c + eps"

text \<open>\<open>getSelectedClip\<close>: the first selected clip of the first track that has one.\<close>

fun getSelectedClip :: "Track list \<Rightarrow> (AudioClip \<times> int) option" where
  "getSelectedClip [] = None"
| "getSelectedClip (track # rest) =
     (case find isSelected (clips track) of
        Some selected \<Rightarrow> Some (selected, trackId track)
      | None \<Rightarrow> getSelectedClip rest)"

text \<open>
  \<open>handleSelectClip\<close>; its second argument is unused by the source and left out.
\<close>

definition handleSelectClip :: "string \<Rightarrow> ProjectState \<Rightarrow> ProjectState" where
  "handleSelectClip clipIdToSelect projectState =
     projectState\<lparr>tracks :=
       map (\<lambda>track. track\<lparr>clips :=
              map (\<lambda>clip. clip\<lparr>isSelected := (clipId clip = clipIdToSelect)\<rparr>) (clips track)\<rparr>)
           (tracks projectState)\<rparr>"

text \<open>
  \<open>handleSplit\<close>. The id of the second clip comes from \<open>crypto.randomUUID()\<close> and is
  the parameter \<open>newId\<close>. \<open>splice(clipIndex, 1, clip1, clip2)\<close> replaces one element
  by two. The sums and differences are those of the code, each rounded to a double.
\<close>

definition handleSplit :: "real \<Rightarrow> string \<Rightarrow> ProjectState \<Rightarrow> ProjectState" where
  "handleSplit playheadPosition newId projectState =
     (case getSelectedClip (tracks projectState) of
        None \<Rightarrow> projectState
      | Some (clip, tid) \<Rightarrow>
          if playheadPosition \<le> startTime clip
             \<or> playheadPosition \<ge> dadd (startTime clip) (duration clip)
          then projectState
          else
            (let splitTime = playheadPosition;
                 clip1 = clip\<lparr>duration := dsub splitTime (startTime clip), isSelected := True\<rparr>;
                 clip2 = clip\<lparr>clipId := newId,
                              startTime := splitTime,
                              startOffset := dadd (startOffset clip) (dsub splitTime (startTime clip)),
                              duration := dsub (duration clip) (dsub splitTime (startTime clip)),
                              isSelected := False\<rparr>;
                 newTracks =
                   map (\<lambda>track.
                          if trackId track \<noteq> tid then track
                          else (case findIndex (\<lambda>c. clipId c = clipId clip) (clips track) of
                                  None \<Rightarrow> track
                                | Some clipIndex \<Rightarrow>
                                    track\<lparr>clips := take clipIndex (clips track) @ [clip1, clip2]
                                                     @ drop (Suc clipIndex) (clips track)\<rparr>))
                       (tracks projectState)
             in projectState\<lparr>tracks := newTracks\<rparr>))"

section \<open>Transport (src/components/DAWContainer.tsx)\<close>

text \<open>
  The transport state read and written by the handlers: the React states \<open>isPlaying\<close>,
  \<open>isRecording\<close>, \<open>playheadPosition\<close>, the refs \<open>pauseTimeRef\<close> and
  \<open>startTimeRef\<close>, the \<open>start\<close> calls issued on the sources held in
  \<open>sourcesRef\<close>, and whether a deferred \<open>handlePlay\<close> has been queued by
  \<open>setTimeout\<close>. The handlers' guards on a missing audio context are left out: the
  component renders only a loading notice until the context exists. The device clock
  \<open>audioContext.currentTime\<close> is the parameter \<open>currentTime\<close>, and a pointer's
  timeline time, computed from the event's coordinates, the scroll offset and the zoom,
  is the parameter \<open>time\<close>.
\<close>

record StartCall =
  callClipId :: string
  playStartTime :: real
  playOffset :: real
  playDuration :: real

record Transport =
  isPlaying :: bool
  isRecording :: bool
  playheadPosition :: real
  pauseTimeRef :: real
  startTimeRef :: real
  sourcesRef :: "StartCall list"
  playQueued :: bool

definition isAnyTrackSoloed :: "Track list \<Rightarrow> bool" where
  "isAnyTrackSoloed ts = list_ex isSoloed ts"

text \<open>\<open>stopPlayback\<close>; \<open>currentTime\<close> is the device clock.\<close>

definition stopPlayback :: "real \<Rightarrow> bool \<Rightarrow> Transport \<Rightarrow> Transport" where
  "stopPlayback currentTime shouldUpdatePosition tr =
     (let tr1 = tr\<lparr>sourcesRef := [], isPlaying := False\<rparr>
      in if shouldUpdatePosition
         then (let newPauseTime = currentTime - startTimeRef tr;
                   validPauseTime =
                     (if newPauseTime < SONG_DURATION_SECONDS then newPauseTime else 0)
               in tr1\<lparr>pauseTimeRef := validPauseTime, playheadPosition := validPauseTime\<rparr>)
         else tr1)"

definition handleSeek :: "real \<Rightarrow> real \<Rightarrow> Transport \<Rightarrow> Transport" where
  "handleSeek currentTime newTime tr =
     (let wasPlaying = isPlaying tr;
          tr1 = stopPlayback currentTime False tr;
          tr2 = tr1\<lparr>pauseTimeRef := newTime, playheadPosition := newTime\<rparr>
      in if wasPlaying then tr2\<lparr>playQueued := True\<rparr> else tr2)"

text \<open>
  The body of the inner \<open>forEach\<close> of \<open>handlePlay\<close> for one clip. The decoded buffers
  \<open>runtimeAudioBuffers\<close> are a map from file id to the buffer's \<open>duration\<close>, the only
  property of a buffer that the scheduling reads.
\<close>

definition scheduleClip ::
  "real \<Rightarrow> real \<Rightarrow> (string \<rightharpoonup> real) \<Rightarrow> AudioClip \<Rightarrow> StartCall option" where
  "scheduleClip pauseTime currentTime runtimeAudioBuffers clip =
     (case runtimeAudioBuffers (fileId clip) of
        None \<Rightarrow> None
      | Some bufferDuration \<Rightarrow>
          (let when = startTime clip;
               offset = startOffset clip;
               dur = duration clip
           in if pauseTime \<ge> when + dur then None
              else
                (let pStartTime = currentTime + max 0 (when - pauseTime);
                     pOffset = (if pauseTime > when
                                then min (offset + (pauseTime - when)) bufferDuration
                                else offset);
                     pDuration = (if pauseTime > when
                                  then max 0 (dur - (pauseTime - when))
                                  else dur)
                 in if pDuration \<le> 0 then None
                    else Some \<lparr>callClipId = clipId clip, playStartTime = pStartTime,
                               playOffset = pOffset, playDuration = pDuration\<rparr>)))"

definition handlePlay ::
  "real \<Rightarrow> (string \<rightharpoonup> real) \<Rightarrow> ProjectState \<Rightarrow> Transport \<Rightarrow> Transport" where
  "handlePlay currentTime runtimeAudioBuffers projectState tr =
     (if isPlaying tr then tr
      else
        (let tr1 = tr\<lparr>isRecording := False,
                       startTimeRef := currentTime - pauseTimeRef tr\<rparr>;
             calls =
               concat (map (\<lambda>track.
                 if trackType track \<noteq> Audio \<or> isMuted track
                    \<or> (isAnyTrackSoloed (tracks projectState) \<and> \<not> isSoloed track)
                 then []
                 else List.map_filter
                        (scheduleClip (pauseTimeRef tr) currentTime runtimeAudioBuffers)
                        (clips track))
                 (tracks projectState))
         in tr1\<lparr>sourcesRef := sourcesRef tr1 @ calls, isPlaying := True\<rparr>))"

text \<open>
  The remainder operator \<open>%\<close> on numbers: the result has the sign of the dividend, and
  a zero divisor gives \<open>NaN\<close> (\<open>None\<close>).
\<close>

definition js_trunc :: "real \<Rightarrow> int" where
  "js_trunc r = (if 0 \<le> r then \<lfloor>r\<rfloor> else \<lceil>r\<rceil>)"

definition js_rem :: "real \<Rightarrow> real \<Rightarrow> real option" where
  "js_rem x y = (if y = 0 then None else Some (x - y * of_int (js_trunc (x / y))))"

text \<open>
  One run of \<open>animationLoop\<close>: it seeks into the loop, or returns to zero at the end of
  the song, or publishes the elapsed time and requests the next frame.
\<close>

datatype Cycle = SeekTo "real option" | ReturnToZero | Publish real

definition animationLoop ::
  "real \<Rightarrow> real \<Rightarrow> bool \<Rightarrow> LoopRegion option \<Rightarrow> Cycle" where
  "animationLoop currentTime startTimeRef_now isLooping region =
     (let elapsedTime = currentTime - startTimeRef_now;
          rest = (if elapsedTime \<ge> SONG_DURATION_SECONDS then ReturnToZero
                  else Publish elapsedTime)
      in case region of
           None \<Rightarrow> rest
         | Some r \<Rightarrow>
             if isLooping \<and> elapsedTime \<ge> loopEnd r
             then (let loopDuration = loopEnd r - loopStart r
                   in SeekTo (map_option (\<lambda>m. loopStart r + m)
                                (js_rem (elapsedTime - loopEnd r) loopDuration)))
             else rest)"

text \<open>The mathematical remainder of the specification, for a positive modulus.\<close>

definition real_mod :: "real \<Rightarrow> real \<Rightarrow> real" where
  "real_mod x y = x - y * of_int \<lfloor>x / y\<rfloor>"

text \<open>
  The ruler: with the modifier key a press opens a set-loop session anchored at the
  pointer's time, otherwise it seeks. While the session is open, every pointer move over
  the timeline recomputes the loop region.
\<close>

definition handleRulerInteraction ::
  "bool \<Rightarrow> real \<Rightarrow> real \<Rightarrow> EditingAction option \<times> Transport \<Rightarrow> EditingAction option \<times> Transport" where
  "handleRulerInteraction altKey currentTime time st =
     (if altKey then (Some (SetLoop time), snd st)
      else (fst st, handleSeek currentTime time (snd st)))"

definition setLoopMove :: "EditingAction option \<Rightarrow> real \<Rightarrow> ProjectState \<Rightarrow> ProjectState" where
  "setLoopMove editingAction time projectState =
     (case editingAction of
        Some (SetLoop anchor) \<Rightarrow>
          projectState\<lparr>loopRegion := Some \<lparr>loopStart = min anchor time, loopEnd = max anchor time\<rparr>\<rparr>
      | _ \<Rightarrow> projectState)"

section \<open>Audio graph nodes\<close>

text \<open>
  Nodes of the Web Audio graph. A source node is named by the clip id under which
  \<open>sourcesRef\<close> holds it. An effect node is a fresh object at every rebuild: it carries
  its allocation number and the parameters it was created from (\<open>createEQNode\<close> for
  \<open>EQ\<close>, \<open>createCompressorNode\<close> for \<open>Compressor\<close>). A graph is the list of its
  connections (from, to).
\<close>

datatype Node =
    SourceNode string
  | EffectNode nat EffectParams
  | PannerNode
  | GainNode
  | MeterNode
  | DestinationNode

type_synonym Graph = "(Node \<times> Node) list"

definition disconnect :: "Node \<Rightarrow> Graph \<Rightarrow> Graph" where
  "disconnect n g = filter (\<lambda>e. fst e \<noteq> n) g"

definition connect :: "Node \<Rightarrow> Node \<Rightarrow> Graph \<Rightarrow> Graph" where
  "connect a b g = (if (a, b) \<in> set g then g else g @ [(a, b)])"

section \<open>Offline export (src/components/DAWContainer.tsx)\<close>

record ExportSource =
  exportFileId :: string
  exportOutputs :: "Node list"
  exportWhen :: real
  exportOffset :: real
  exportDuration :: real

record OfflineRender =
  numberOfChannels :: nat
  renderLength :: int
  renderSampleRate :: real
  renderSources :: "ExportSource list"

definition totalDuration :: "Track list \<Rightarrow> real" where
  "totalDuration ts =
     foldl (\<lambda>mx track.
              foldl (\<lambda>clipMax clip. max clipMax (startTime clip + duration clip)) mx (clips track))
           0 ts"

text \<open>
  \<open>handleExportAudio\<close> up to the start of rendering: \<open>None\<close> when it returns early,
  otherwise the offline context and the sources started on it.
\<close>

definition handleExportAudio ::
  "real \<Rightarrow> (string \<rightharpoonup> real) \<Rightarrow> ProjectState \<Rightarrow> OfflineRender option" where
  "handleExportAudio sampleRate runtimeAudioBuffers projectState =
     (if tracks projectState = [] then None
      else if totalDuration (tracks projectState) = 0 then None
      else
        (let isAnySoloedExport = list_ex isSoloed (tracks projectState)
         in Some \<lparr>numberOfChannels = 2,
                  renderLength = \<lceil>totalDuration (tracks projectState) * sampleRate\<rceil>,
                  renderSampleRate = sampleRate,
                  renderSources =
                    concat (map (\<lambda>track.
                      if trackType track \<noteq> Audio \<or> isMuted track
                         \<or> (isAnySoloedExport \<and> \<not> isSoloed track)
                      then []
                      else List.map_filter
                             (\<lambda>clip. case runtimeAudioBuffers (fileId clip) of
                                        None \<Rightarrow> None
                                      | Some buffer \<Rightarrow>
                                          Some \<lparr>exportFileId = fileId clip,
                                                exportOutputs = [DestinationNode],
                                                exportWhen = startTime clip,
                                                exportOffset = startOffset clip,
                                                exportDuration = duration clip\<rparr>)
                             (clips track))
                      (tracks projectState))\<rparr>))"

section \<open>Channel strip (src/components/ChannelStrip.tsx)\<close>

text \<open>
  The audio state of one channel strip: the connections made so far, the map
  \<open>effectNodesRef\<close> from effect id to node (in insertion order), whether the meter
  node exists, and the number of the next node to be created.
\<close>

record Strip =
  graph :: Graph
  effectNodesRef :: "(string \<times> Node) list"
  meterNodeRef :: bool
  nextNode :: nat

text \<open>\<open>Map.prototype.set\<close> on an insertion-ordered map.\<close>

fun map_set :: "'k \<Rightarrow> 'v \<Rightarrow> ('k \<times> 'v) list \<Rightarrow> ('k \<times> 'v) list" where
  "map_set k v [] = [(k, v)]"
| "map_set k v (p # ps) = (if fst p = k then (k, v) # ps else p # map_set k v ps)"

text \<open>
  One step of the \<open>forEach\<close> over the reversed effect list: create the node, connect it
  to \<open>lastNodeForChain\<close>, make it the new \<open>lastNodeForChain\<close>, record it.
\<close>

definition wireEffect ::
  "Graph \<times> Node \<times> (string \<times> Node) list \<times> nat \<Rightarrow> Effect
     \<Rightarrow> Graph \<times> Node \<times> (string \<times> Node) list \<times> nat" where
  "wireEffect st effect =
     (case st of (g, lastNodeForChain, newEffectNodes, k) \<Rightarrow>
        (let node = EffectNode k (params effect)
         in (connect node lastNodeForChain g, node,
             map_set (effectId effect) node newEffectNodes, Suc k)))"

text \<open>
  The effect that rebuilds the chain (lines 74 to 107), once the panner and the gain node
  exist. \<open>sourceNodes\<close> lists the clip ids that have a source node. A
  \<open>disconnect ()\<close> removes every connection leaving the node; a \<open>connect\<close> that
  is already there changes nothing.
\<close>

definition rebuildChain :: "string list \<Rightarrow> Track \<Rightarrow> Strip \<Rightarrow> Strip" where
  "rebuildChain sourceNodes track strip =
     (let g1 = foldl (\<lambda>g cid. if list_ex (\<lambda>c. clipId c = cid) (clips track)
                               then disconnect (SourceNode cid) g else g)
                     (graph strip) sourceNodes;
          g2 = foldl (\<lambda>g p. disconnect (snd p) g) g1 (effectNodesRef strip);
          wired = foldl wireEffect (g2, PannerNode, [], nextNode strip) (rev (effects track));
          g3 = fst wired;
          lastNodeForChain = fst (snd wired);
          newEffectNodes = fst (snd (snd wired));
          g4 = foldl (\<lambda>g clip. if clipId clip \<in> set sourceNodes
                                then connect (SourceNode (clipId clip)) lastNodeForChain g
                                else g)
                     g3 (clips track);
          g5 = connect PannerNode GainNode g4;
          g6 = connect GainNode DestinationNode g5;
          g7 = (if meterNodeRef strip then connect GainNode MeterNode g6 else g6)
      in strip\<lparr>graph := g7, effectNodesRef := newEffectNodes,
                nextNode := snd (snd (snd wired))\<rparr>)"

text \<open>The nodes a node is connected to.\<close>

definition outputs :: "Graph \<Rightarrow> Node \<Rightarrow> Node set" where
  "outputs g n = {b. (n, b) \<in> set g}"

text \<open>
  Node numbers are handed out in increasing order, so in a strip built by rebuilds no
  connection leaves an effect node whose number is still to come.
\<close>

definition strip_fresh :: "Strip \<Rightarrow> bool" where
  "strip_fresh strip \<longleftrightarrow>
     list_all (\<lambda>e. case fst e of EffectNode k ps \<Rightarrow> k < nextNode strip | _ \<Rightarrow> True) (graph strip)"

text \<open>
  The node that a rebuild starting at node number \<open>k\<close> creates for the effect at
  position \<open>i\<close> of the declared list \<open>es\<close>: the list is walked backwards, so the
  last effect gets the number \<open>k\<close> and the first the highest.
\<close>

definition chainNode :: "nat \<Rightarrow> Effect list \<Rightarrow> nat \<Rightarrow> Node" where
  "chainNode k es i = EffectNode (k + (length es - 1 - i)) (params (es ! i))"

text \<open>
  The order of processing: follow the signal from a node while it flows into exactly one
  node and that node is an effect, and list the effects passed.
\<close>

definition successors :: "Graph \<Rightarrow> Node \<Rightarrow> Node list" where
  "successors g n = remdups (map snd (filter (\<lambda>e. fst e = n) g))"

fun effectsOnPath :: "nat \<Rightarrow> Graph \<Rightarrow> Node \<Rightarrow> EffectParams list" where
  "effectsOnPath 0 g n = []"
| "effectsOnPath (Suc fuel) g n =
     (case successors g n of
        [EffectNode k ps] \<Rightarrow> ps # effectsOnPath fuel g (EffectNode k ps)
      | _ \<Rightarrow> [])"

text \<open>
  The effect that updates the gain (lines 110 to 115): one automation call on the gain
  parameter. \<open>setTargetAtTime (target, startTime, timeConstant)\<close> approaches the target
  exponentially; \<open>setValueAtTime\<close> would jump.
\<close>

definition RAMP_TIME :: real where
  "RAMP_TIME = 1 / 100"

datatype ParamCall = SetValueAtTime real real | SetTargetAtTime real real real

definition gainEffect :: "Track \<Rightarrow> bool \<Rightarrow> real \<Rightarrow> ParamCall" where
  "gainEffect track anyTrackSoloed now =
     (let targetGain = (if isMuted track \<or> (anyTrackSoloed \<and> \<not> isSoloed track)
                        then 0 else volume track)
      in SetTargetAtTime targetGain now RAMP_TIME)"

section \<open>Persistence (src/services/IndexedDB.ts)\<close>

text \<open>
  What the project store can hold: a bare array of tracks (the oldest shape) or an object
  with \<open>tracks\<close> and possibly \<open>loopRegion\<close>. A stored track may lack \<open>trackType\<close>
  and \<open>clips\<close>, and may hold a single inline \<open>audioClip\<close> with the four fields the
  migration reads.
\<close>

record LegacyClip =
  legacyFileId :: string
  legacyName :: string
  legacyStartTime :: real
  legacyDuration :: real

record StoredTrack =
  storedId :: int
  storedName :: string
  storedTrackType :: "TrackType option"
  storedVolume :: real
  storedPan :: real
  storedIsMuted :: bool
  storedIsSoloed :: bool
  storedEffects :: "Effect list"
  storedAudioClip :: "LegacyClip option"
  storedClips :: "AudioClip list option"

datatype StoredProject =
    TrackArray "StoredTrack list"
  | ProjectObject "StoredTrack list" "LoopRegion option"

text \<open>
  The function mapped over the stored tracks by \<open>getProject\<close>; \<open>newId\<close> is the result
  of \<open>crypto.randomUUID()\<close> for this track.
\<close>

definition migrateTrack :: "string \<Rightarrow> StoredTrack \<Rightarrow> Track" where
  "migrateTrack newId t =
     (let ty = (case storedTrackType t of None \<Rightarrow> Audio | Some ty \<Rightarrow> ty);
          cs = (case (storedAudioClip t, storedClips t) of
                  (Some a, None) \<Rightarrow>
                    [\<lparr>clipId = newId, fileId = legacyFileId a, name = legacyName a,
                      startTime = legacyStartTime a, startOffset = 0,
                      duration = legacyDuration a, sourceDuration = legacyDuration a,
                      isSelected = False\<rparr>]
                | (None, None) \<Rightarrow> []
                | (_, Some cs) \<Rightarrow> cs)
      in \<lparr>trackId = storedId t, trackName = storedName t, trackType = ty,
          volume = storedVolume t, pan = storedPan t, isMuted = storedIsMuted t,
          isSoloed = storedIsSoloed t, effects = storedEffects t,
          clips = map (\<lambda>c. c\<lparr>isSelected := False\<rparr>) cs\<rparr>)"

text \<open>The \<open>map\<close> over the tracks; the track at position \<open>i\<close> draws the id \<open>randomUUID i\<close>.\<close>

fun migrateTracks :: "(nat \<Rightarrow> string) \<Rightarrow> nat \<Rightarrow> StoredTrack list \<Rightarrow> Track list" where
  "migrateTracks randomUUID i [] = []"
| "migrateTracks randomUUID i (t # ts) =
     migrateTrack (randomUUID i) t # migrateTracks randomUUID (Suc i) ts"

definition getProject ::
  "(nat \<Rightarrow> string) \<Rightarrow> string \<Rightarrow> (string \<rightharpoonup> StoredProject) \<Rightarrow> ProjectState option" where
  "getProject randomUUID key store =
     (case store key of
        None \<Rightarrow> None
      | Some project \<Rightarrow>
          (case project of
             TrackArray ts \<Rightarrow>
               Some \<lparr>tracks = migrateTracks randomUUID 0 ts, loopRegion = None\<rparr>
           | ProjectObject ts region \<Rightarrow>
               Some \<lparr>tracks = migrateTracks randomUUID 0 ts, loopRegion = region\<rparr>))"

text \<open>\<open>saveProject\<close> puts the project object, with all fields of the current shape.\<close>

definition storeTrack :: "Track \<Rightarrow> StoredTrack" where
  "storeTrack t =
     \<lparr>storedId = trackId t, storedName = trackName t, storedTrackType = Some (trackType t),
      storedVolume = volume t, storedPan = pan t, storedIsMuted = isMuted t,
      storedIsSoloed = isSoloed t, storedEffects = effects t,
      storedAudioClip = None, storedClips = Some (clips t)\<rparr>"

definition saveProject ::
  "string \<Rightarrow> ProjectState \<Rightarrow> (string \<rightharpoonup> StoredProject) \<Rightarrow> (string \<rightharpoonup> StoredProject)" where
  "saveProject key projectState store =
     store(key \<mapsto> ProjectObject (map storeTrack (tracks projectState)) (loopRegion projectState))"

section \<open>The invariants of the data model\<close>

definition effect_inv :: "Effect \<Rightarrow> bool" where
  "effect_inv e =
     (case params e of
        EQ s \<Rightarrow> 20 \<le> frequency s \<and> frequency s \<le> 20000 \<and> - 12 \<le> gain s \<and> gain s \<le> 12
                \<and> 1 / 10 \<le> q s \<and> q s \<le> 18
      | Compressor s \<Rightarrow> - 100 \<le> threshold s \<and> threshold s \<le> 0 \<and> 1 \<le> ratio s \<and> ratio s \<le> 20
                \<and> 0 \<le> attack s \<and> attack s \<le> 1 \<and> 0 \<le> release s \<and> release s \<le> 1)"

definition placed_clip_inv :: "real \<Rightarrow> AudioClip \<Rightarrow> bool" where
  "placed_clip_inv eps c \<longleftrightarrow> 0 \<le> startTime c \<and> clip_inv eps c"

definition track_inv :: "real \<Rightarrow> Track \<Rightarrow> bool" where
  "track_inv eps t \<longleftrightarrow>
     0 \<le> volume t \<and> volume t \<le> 1 \<and> - 1 \<le> pan t \<and> pan t \<le> 1
     \<and> list_all effect_inv (effects t) \<and> list_all (placed_clip_inv eps) (clips t)"

definition region_inv :: "LoopRegion option \<Rightarrow> bool" where
  "region_inv region = (case region of None \<Rightarrow> True | Some r \<Rightarrow> loopStart r < loopEnd r)"

definition allClips :: "Track list \<Rightarrow> AudioClip list" where
  "allClips ts = concat (map clips ts)"

definition project_inv :: "real \<Rightarrow> ProjectState \<Rightarrow> bool" where
  "project_inv eps p \<longleftrightarrow>
     distinct (map trackId (tracks p))
     \<and> list_all (track_inv eps) (tracks p)
     \<and> distinct (map clipId (allClips (tracks p)))
     \<and> length (filter isSelected (allClips (tracks p))) \<le> 1
     \<and> region_inv (loopRegion p)"

text \<open>
  The same invariants read off a stored value: its tracks, the loop region it holds (none
  for a bare array), the clips a track will load, and the clip ids the loaded project
  will have, with \<open>randomUUID i\<close> for the clip migrated in the track at position \<open>i\<close>.
\<close>

fun storedTracks :: "StoredProject \<Rightarrow> StoredTrack list" where
  "storedTracks (TrackArray ts) = ts"
| "storedTracks (ProjectObject ts region) = ts"

fun storedRegion :: "StoredProject \<Rightarrow> LoopRegion option" where
  "storedRegion (TrackArray ts) = None"
| "storedRegion (ProjectObject ts region) = region"

definition stored_track_inv :: "real \<Rightarrow> StoredTrack \<Rightarrow> bool" where
  "stored_track_inv eps t \<longleftrightarrow>
     0 \<le> storedVolume t \<and> storedVolume t \<le> 1 \<and> - 1 \<le> storedPan t \<and> storedPan t \<le> 1
     \<and> list_all effect_inv (storedEffects t)
     \<and> (case storedClips t of
          Some cs \<Rightarrow> list_all (placed_clip_inv eps) cs
        | None \<Rightarrow> (case storedAudioClip t of
                     None \<Rightarrow> True
                   | Some a \<Rightarrow> 0 \<le> legacyStartTime a \<and> 0 < legacyDuration a))"

fun storedClipIds :: "(nat \<Rightarrow> string) \<Rightarrow> nat \<Rightarrow> StoredTrack list \<Rightarrow> string list" where
  "storedClipIds randomUUID i [] = []"
| "storedClipIds randomUUID i (t # ts) =
     (case storedClips t of
        Some cs \<Rightarrow> map clipId cs
      | None \<Rightarrow> (case storedAudioClip t of None \<Rightarrow> [] | Some a \<Rightarrow> [randomUUID i]))
     @ storedClipIds randomUUID (Suc i) ts"

definition stored_inv :: "real \<Rightarrow> (nat \<Rightarrow> string) \<Rightarrow> StoredProject \<Rightarrow> bool" where
  "stored_inv eps randomUUID s \<longleftrightarrow>
     distinct (map storedId (storedTracks s))
     \<and> list_all (stored_track_inv eps) (storedTracks s)
     \<and> distinct (storedClipIds randomUUID 0 (storedTracks s))
     \<and> region_inv (storedRegion s)"

definition loadedClips :: "string \<Rightarrow> StoredTrack \<Rightarrow> AudioClip list" where
  "loadedClips newId t =
     (case storedClips t of
        Some cs \<Rightarrow> map (\<lambda>c. c\<lparr>isSelected := False\<rparr>) cs
      | None \<Rightarrow>
          (case storedAudioClip t of
             None \<Rightarrow> []
           | Some a \<Rightarrow>
               [\<lparr>clipId = newId, fileId = legacyFileId a, name = legacyName a,
                 startTime = legacyStartTime a, startOffset = 0,
                 duration = legacyDuration a, sourceDuration = legacyDuration a,
                 isSelected = False\<rparr>]))"

text \<open>A track with the selection flags of its clips erased: all that a selection leaves alone.\<close>

definition deselect :: "Track \<Rightarrow> Track" where
  "deselect t = t\<lparr>clips := map (\<lambda>c. c\<lparr>isSelected := False\<rparr>) (clips t)\<rparr>"

section \<open>Example values\<close>

text \<open>
  A ten-second clip at the start of the timeline, the first of the two initial tracks
  holding it, and the transport as the component first renders it.
\<close>

definition demoClip :: AudioClip where
  "demoClip = \<lparr>clipId = ''c1'', fileId = ''f1'', name = ''take.wav'', startTime = 0,
                startOffset = 0, duration = 10, sourceDuration = 10, isSelected = False\<rparr>"

definition demoTrack :: Track where
  "demoTrack = \<lparr>trackId = 1, trackName = ''Audio 1'', trackType = Audio, volume = 4 / 5,
                 pan = 0, isMuted = False, isSoloed = False, effects = [], clips = [demoClip]\<rparr>"

definition midiTrack :: Track where
  "midiTrack = \<lparr>trackId = 2, trackName = ''MIDI 1'', trackType = Midi, volume = 4 / 5,
                 pan = 0, isMuted = False, isSoloed = False, effects = [], clips = []\<rparr>"

definition demoProject :: ProjectState where
  "demoProject = \<lparr>tracks = [demoTrack, midiTrack], loopRegion = None\<rparr>"

definition demoBuffers :: "string \<rightharpoonup> real" where
  "demoBuffers = [''f1'' \<mapsto> 10]"

definition stoppedTransport :: Transport where
  "stoppedTransport = \<lparr>isPlaying = False, isRecording = False, playheadPosition = 0,
                        pauseTimeRef = 0, startTimeRef = 0, sourcesRef = [],
                        playQueued = False\<rparr>"

text \<open>
  A track with an equaliser followed by a compressor (the defaults of \<open>createEQNode\<close>
  and \<open>createCompressorNode\<close>), and a channel strip before its first rebuild.
\<close>

definition demoEQ :: Effect where
  "demoEQ = \<lparr>effectId = ''fx1'', params = EQ \<lparr>frequency = 1000, gain = 0, q = 1\<rparr>\<rparr>"

definition demoCompressor :: Effect where
  "demoCompressor = \<lparr>effectId = ''fx2'',
     params = Compressor \<lparr>threshold = - 24, ratio = 12, attack = 3 / 1000, release = 1 / 4,
                          knee = 30\<rparr>\<rparr>"

definition fxTrack :: Track where
  "fxTrack = demoTrack\<lparr>effects := [demoEQ, demoCompressor]\<rparr>"

definition newStrip :: Strip where
  "newStrip = \<lparr>graph = [], effectNodesRef = [], meterNodeRef = False, nextNode = 0\<rparr>"

text \<open>
  A track as the oldest schema stored it, and the project that a set-loop gesture
  anchored at 1 s publishes when the pointer's time is again 1 s.
\<close>

definition legacyTrack :: StoredTrack where
  "legacyTrack = \<lparr>storedId = 1, storedName = ''Audio 1'', storedTrackType = None,
                   storedVolume = 4 / 5, storedPan = 0, storedIsMuted = False,
                   storedIsSoloed = False, storedEffects = [],
                   storedAudioClip = Some \<lparr>legacyFileId = ''f1'', legacyName = ''take.wav'',
                                           legacyStartTime = 0, legacyDuration = 10\<rparr>,
                   storedClips = None\<rparr>"

definition pointLoopProject :: ProjectState where
  "pointLoopProject = setLoopMove (Some (SetLoop 1)) 1 demoProject"



definition selectedProject :: ProjectState where
  "selectedProject = handleSelectClip ''c1'' demoProject"

section \<open>Effective gain\<close>

text \<open>
  Claim C5. The gain effect of a channel strip issues one call on the gain parameter:
  \<open>setTargetAtTime\<close> towards the effective gain, which is 0 when the track is muted, or
  when some track of the project is soloed and this one is not, and the track's volume
  otherwise. The call starts at the current device time with the positive time constant
  \<open>RAMP_TIME\<close> of 10 ms, so the gain approaches its target instead of jumping to it.
\<close>

theorem effective_gain:
  "gainEffect track (isAnyTrackSoloed (tracks p)) now =
     SetTargetAtTime
       (if isMuted track \<or> ((\<exists>t \<in> set (tracks p). isSoloed t) \<and> \<not> isSoloed track)
        then 0 else volume track)
       now RAMP_TIME
   \<and> RAMP_TIME = 1 / 100 \<and> 0 < RAMP_TIME"
  by (simp add: gainEffect_def RAMP_TIME_def isAnyTrackSoloed_def list_ex_iff)

theorem effective_gain_witness:
  "gainEffect demoTrack (isAnyTrackSoloed [demoTrack, midiTrack\<lparr>isSoloed := True\<rparr>]) 0
     = SetTargetAtTime 0 0 (1 / 100)
   \<and> gainEffect demoTrack (isAnyTrackSoloed (tracks demoProject)) 0
     = SetTargetAtTime (4 / 5) 0 (1 / 100)"
  using effective_gain [of demoTrack "\<lparr>tracks = [demoTrack, midiTrack\<lparr>isSoloed := True\<rparr>],
                                        loopRegion = None\<rparr>" 0]
        effective_gain [of demoTrack demoProject 0]
  by (simp add: demoTrack_def midiTrack_def demoProject_def)

section \<open>Trim edits\<close>

text \<open>
  Claim C1. During a trim gesture the snapshot \<open>i\<close> taken at the start of the gesture
  and the clip \<open>c\<close> being updated are the same clip at two moments: they have the same
  \<open>sourceDuration\<close>, and in a trim-end gesture the same \<open>startOffset\<close>, since the
  gesture writes neither (at the first pointer move \<open>c\<close> is \<open>i\<close>). For a tolerance
  \<open>eps \<ge> 0\<close> and clips satisfying \<open>startOffset \<ge> 0\<close>, \<open>duration > 0\<close>,
  \<open>startOffset + duration \<le> sourceDuration + eps\<close>: a trim-start by \<open>d\<close> computes
  \<open>newStart = max 0 (startTime + d)\<close>, \<open>newDuration = duration - (newStart - startTime)\<close>,
  \<open>newOffset = startOffset + (newStart - startTime)\<close> and writes the three when
  \<open>newDuration > 0\<close> and \<open>newOffset \<ge> 0\<close>, leaving the clip as it is otherwise; a
  trim-end writes \<open>newDuration = min (duration + d) (sourceDuration - startOffset)\<close>
  when it is positive, leaving the clip as it is otherwise; the resulting clip satisfies
  the three invariants again.
\<close>

theorem trim_keeps_clip_invariants:
  assumes "0 \<le> eps" and "clip_inv eps i" and "clip_inv eps c"
    and "sourceDuration c = sourceDuration i"
  shows "applyEdit TrimStart i d c =
           (let newStart = max 0 (startTime i + d);
                newDuration = duration i - (newStart - startTime i);
                newOffset = startOffset i + (newStart - startTime i)
            in if newDuration > 0 \<and> newOffset \<ge> 0
               then c\<lparr>startTime := newStart, duration := newDuration, startOffset := newOffset\<rparr>
               else c)
       \<and> applyEdit TrimEnd i d c =
           (let newDuration = min (duration i + d) (sourceDuration i - startOffset i)
            in if newDuration > 0 then c\<lparr>duration := newDuration\<rparr> else c)
       \<and> clip_inv eps (applyEdit TrimStart i d c)
       \<and> (startOffset c = startOffset i \<longrightarrow> clip_inv eps (applyEdit TrimEnd i d c))"
  using assms by (auto simp: applyEdit_def Let_def clip_inv_def)

theorem trim_keeps_clip_invariants_witness:
  "clip_inv 0 demoClip
   \<and> applyEdit TrimStart demoClip 2 demoClip
       = demoClip\<lparr>startTime := 2, duration := 8, startOffset := 2\<rparr>
   \<and> applyEdit TrimStart demoClip 11 demoClip = demoClip
   \<and> applyEdit TrimEnd demoClip (- 4) demoClip = demoClip\<lparr>duration := 6\<rparr>
   \<and> applyEdit TrimEnd demoClip 4 demoClip = demoClip
   \<and> applyEdit TrimEnd demoClip (- 10) demoClip = demoClip
   \<and> clip_inv 0 (applyEdit TrimStart demoClip 2 demoClip)
   \<and> clip_inv 0 (applyEdit TrimEnd demoClip (- 4) demoClip)"
  using trim_keeps_clip_invariants [of 0 demoClip demoClip 2]
        trim_keeps_clip_invariants [of 0 demoClip demoClip 11]
        trim_keeps_clip_invariants [of 0 demoClip demoClip "- 4"]
        trim_keeps_clip_invariants [of 0 demoClip demoClip 4]
        trim_keeps_clip_invariants [of 0 demoClip demoClip "- 10"]
  by (simp add: clip_inv_def demoClip_def)

text \<open>
  The handler around the edit: a snapped pointer at 2.1 s in a trim-start gesture begun
  at 0 s updates the clip of the track in place.
\<close>

lemma handleClipEditing_demo:
  "handleClipEditing (Some (ClipEdit TrimStart demoClip 1 0 demoClip)) True (21 / 10) demoProject
     = Inr (demoProject\<lparr>tracks :=
              [demoTrack\<lparr>clips := [demoClip\<lparr>startTime := 2, duration := 8, startOffset := 2\<rparr>]\<rparr>,
               midiTrack]\<rparr>)"
  by (simp add: handleClipEditing_def demoProject_def demoTrack_def midiTrack_def
      Math_round_def SECONDS_PER_BEAT_def applyEdit_def Let_def demoClip_def)

section \<open>Scheduling on play\<close>

lemma set_map_filter_iff:
  "y \<in> set (List.map_filter f xs) \<longleftrightarrow> (\<exists>x \<in> set xs. f x = Some y)"
  by (induction xs) (auto split: option.splits)

text \<open>
  Claim C3. Let \<open>clip\<close> be a clip of an eligible track (audio, not muted, soloed when
  any track is) whose file has a decoded buffer of duration \<open>sourceDur\<close>, and let the
  transport be stopped at the paused position \<open>pos\<close>. Then \<open>handlePlay\<close> skips the
  clip when \<open>pos \<ge> startTime + duration\<close> or when the play duration is not positive,
  and otherwise starts it at \<open>now + max 0 (startTime - pos)\<close> with
  \<open>playOffset = (if pos > startTime then min (startOffset + (pos - startTime)) sourceDur
  else startOffset)\<close> and \<open>playDuration = (if pos > startTime then
  max 0 (duration - (pos - startTime)) else duration)\<close>; every start issued comes from
  such a clip. The clamp is by the duration of the decoded buffer; for a clip that lies
  within the buffer and within its recorded \<open>sourceDuration\<close> the clamp by either
  gives the same offset. In particular, after \<open>seek 3\<close> a clip spanning \<open>[0, 10)\<close> with
  \<open>startOffset = 0\<close> is started with \<open>playOffset = 3\<close> and \<open>playDuration = 7\<close>.
\<close>

theorem play_schedules_clip:
  assumes "track \<in> set (tracks p)"
    and "trackType track = Audio" and "\<not> isMuted track"
    and "isAnyTrackSoloed (tracks p) \<longrightarrow> isSoloed track"
    and "clip \<in> set (clips track)"
    and "bufs (fileId clip) = Some sourceDur"
    and "\<not> isPlaying tr"
  shows "(let pos = pauseTimeRef tr;
              playAt = now + max 0 (startTime clip - pos);
              playOff = (if pos > startTime clip
                         then min (startOffset clip + (pos - startTime clip)) sourceDur
                         else startOffset clip);
              playDur = (if pos > startTime clip
                         then max 0 (duration clip - (pos - startTime clip))
                         else duration clip);
              call = \<lparr>callClipId = clipId clip, playStartTime = playAt,
                      playOffset = playOff, playDuration = playDur\<rparr>
          in scheduleClip pos now bufs clip =
               (if pos \<ge> startTime clip + duration clip \<or> playDur \<le> 0 then None else Some call)
             \<and> (pos < startTime clip + duration clip \<and> 0 < playDur
                  \<longrightarrow> call \<in> set (sourcesRef (handlePlay now bufs p tr)))
             \<and> (pos < startTime clip + duration clip
                  \<and> startOffset clip + duration clip \<le> sourceDur
                  \<and> startOffset clip + duration clip \<le> sourceDuration clip
                  \<longrightarrow> playOff = (if pos > startTime clip
                                 then min (startOffset clip + (pos - startTime clip))
                                          (sourceDuration clip)
                                 else startOffset clip)))
         \<and> (\<forall>call \<in> set (sourcesRef (handlePlay now bufs p tr)).
               call \<in> set (sourcesRef tr)
               \<or> (\<exists>t \<in> set (tracks p). trackType t = Audio \<and> \<not> isMuted t
                     \<and> (isAnyTrackSoloed (tracks p) \<longrightarrow> isSoloed t)
                     \<and> (\<exists>c \<in> set (clips t).
                           scheduleClip (pauseTimeRef tr) now bufs c = Some call)))
         \<and> (startTime clip = 0 \<and> duration clip = 10 \<and> startOffset clip = 0 \<and> 3 \<le> sourceDur
              \<longrightarrow> \<lparr>callClipId = clipId clip, playStartTime = now, playOffset = 3, playDuration = 7\<rparr>
                    \<in> set (sourcesRef (handlePlay now bufs p (handleSeek now 3 tr))))"
proof -
  have member: "call \<in> set (sourcesRef (handlePlay now bufs p tr'))"
    if "scheduleClip (pauseTimeRef tr') now bufs clip = Some call" and "\<not> isPlaying tr'"
    for call tr'
    using that assms(1-5)
    by (auto simp: handlePlay_def Let_def set_map_filter_iff
        intro!: bexI[of _ track] bexI[of _ clip])
  have seek: "\<not> isPlaying (handleSeek now 3 tr)" "pauseTimeRef (handleSeek now 3 tr) = 3"
    using assms(7) by (simp_all add: handleSeek_def stopPlayback_def Let_def)
  have only: "\<forall>call \<in> set (sourcesRef (handlePlay now bufs p tr)).
               call \<in> set (sourcesRef tr)
               \<or> (\<exists>t \<in> set (tracks p). trackType t = Audio \<and> \<not> isMuted t
                     \<and> (isAnyTrackSoloed (tracks p) \<longrightarrow> isSoloed t)
                     \<and> (\<exists>c \<in> set (clips t).
                           scheduleClip (pauseTimeRef tr) now bufs c = Some call))"
    using assms(7)
    by (auto simp: handlePlay_def Let_def set_map_filter_iff split: if_splits)
  show ?thesis
    apply (intro conjI impI)
    subgoal using assms(6) member[OF _ assms(7)]
      by (auto simp: scheduleClip_def Let_def)
    subgoal by (rule only)
    subgoal
      apply (rule member[OF _ seek(1)])
      using assms(6) by (simp add: seek(2) scheduleClip_def Let_def)
    done
qed

theorem play_schedules_clip_witness:
  "demoTrack \<in> set (tracks demoProject) \<and> trackType demoTrack = Audio \<and> \<not> isMuted demoTrack
   \<and> \<not> isAnyTrackSoloed (tracks demoProject)
   \<and> demoClip \<in> set (clips demoTrack) \<and> demoBuffers (fileId demoClip) = Some 10
   \<and> \<not> isPlaying stoppedTransport
   \<and> \<lparr>callClipId = ''c1'', playStartTime = 5, playOffset = 3, playDuration = 7\<rparr>
       \<in> set (sourcesRef (handlePlay 5 demoBuffers demoProject (handleSeek 5 3 stoppedTransport)))
   \<and> scheduleClip (pauseTimeRef stoppedTransport) 5 demoBuffers demoClip
       = Some \<lparr>callClipId = ''c1'', playStartTime = 5, playOffset = 0, playDuration = 10\<rparr>"
  using play_schedules_clip [of demoTrack demoProject demoClip demoBuffers 10 stoppedTransport 5]
  by (simp add: demoProject_def demoTrack_def demoClip_def demoBuffers_def stoppedTransport_def
      isAnyTrackSoloed_def midiTrack_def Let_def)

section \<open>The position-update cycle\<close>

lemma js_rem_pos:
  assumes "0 \<le> x" and "0 < y"
  shows "js_rem x y = Some (real_mod x y)"
  using assms by (simp add: js_rem_def real_mod_def js_trunc_def)

lemma real_mod_range:
  assumes "0 < y"
  shows "0 \<le> real_mod x y \<and> real_mod x y < y"
  using floor_divide_lower[OF assms, of x] floor_divide_upper[OF assms, of x]
  by (simp add: real_mod_def algebra_simps)

text \<open>
  Claim C7. With looping enabled and a loop region with \<open>start < end\<close>, a cycle whose
  elapsed time \<open>now - startTimeRef\<close> has reached \<open>end\<close> seeks to
  \<open>start + ((elapsed - end) mod (end - start))\<close>, and the seek publishes that time as the
  playhead position; the time lies in \<open>[start, end)\<close>. For the region from 2 to 5 it
  is \<open>2 + ((elapsed - 5) mod 3)\<close>. The remainder \<open>%\<close> of the code agrees with the
  mathematical one here because the dividend is not negative and the divisor is positive.
\<close>

theorem loop_wraparound:
  assumes "loopStart r < loopEnd r" and "loopEnd r \<le> now - startTimeRef tr"
  shows "(let elapsed = now - startTimeRef tr;
              newTime = loopStart r + real_mod (elapsed - loopEnd r) (loopEnd r - loopStart r)
          in animationLoop now (startTimeRef tr) True (Some r) = SeekTo (Some newTime)
             \<and> playheadPosition (handleSeek now newTime tr) = newTime
             \<and> loopStart r \<le> newTime \<and> newTime < loopEnd r
             \<and> (loopStart r = 2 \<and> loopEnd r = 5 \<longrightarrow> newTime = 2 + real_mod (elapsed - 5) 3))"
  using assms real_mod_range[of "loopEnd r - loopStart r" "now - startTimeRef tr - loopEnd r"]
  by (simp add: animationLoop_def Let_def js_rem_pos handleSeek_def stopPlayback_def)

theorem loop_wraparound_witness:
  "animationLoop 7 0 True (Some \<lparr>loopStart = 2, loopEnd = 5\<rparr>) = SeekTo (Some 4)
   \<and> playheadPosition (handleSeek 7 4 (stoppedTransport\<lparr>isPlaying := True\<rparr>)) = 4
   \<and> animationLoop 5 0 True (Some \<lparr>loopStart = 2, loopEnd = 5\<rparr>) = SeekTo (Some 2)"
  using loop_wraparound [of "\<lparr>loopStart = 2, loopEnd = 5\<rparr>" 7 "stoppedTransport\<lparr>isPlaying := True\<rparr>"]
    loop_wraparound [of "\<lparr>loopStart = 2, loopEnd = 5\<rparr>" 5 "stoppedTransport\<lparr>isPlaying := True\<rparr>"]
  by (simp add: stoppedTransport_def real_mod_def Let_def)

section \<open>The set-loop gesture\<close>

text \<open>
  What the gesture guarantees: the region is ordered, and strictly so exactly when the
  pointer's time differs from the anchor.
\<close>

lemma setLoopMove_region:
  "loopRegion (setLoopMove (Some (SetLoop a)) t p) = Some r \<Longrightarrow>
     loopStart r \<le> loopEnd r \<and> (loopStart r < loopEnd r \<longleftrightarrow> t \<noteq> a)"
  by (auto simp: setLoopMove_def)

text \<open>
  Claim C10. A set-loop gesture pressed on the ruler at 1 s, followed by a pointer move
  whose time is again 1 s, publishes the loop region from 1 to 1, which does not satisfy
  \<open>start < end\<close>. With looping enabled, the position-update cycle then takes a
  remainder by zero and seeks to \<open>NaN\<close>.
\<close>

theorem set_loop_degenerate:
  "setLoopMove (fst (handleRulerInteraction True 0 1 (None, stoppedTransport))) 1 demoProject
     = demoProject\<lparr>loopRegion := Some \<lparr>loopStart = 1, loopEnd = 1\<rparr>\<rparr>
   \<and> \<not> region_inv (loopRegion
         (setLoopMove (fst (handleRulerInteraction True 0 1 (None, stoppedTransport))) 1 demoProject))
   \<and> animationLoop 7 0 True (Some \<lparr>loopStart = 1, loopEnd = 1\<rparr>) = SeekTo None"
  by (simp add: setLoopMove_def handleRulerInteraction_def region_inv_def animationLoop_def
      js_rem_def)

section \<open>Selection\<close>

lemma allClips_select:
  "allClips (tracks (handleSelectClip cid p))
     = map (\<lambda>c. c\<lparr>isSelected := (clipId c = cid)\<rparr>) (allClips (tracks p))"
  by (simp add: handleSelectClip_def allClips_def map_concat comp_def)

lemma count_distinct_key:
  "distinct (map f xs) \<Longrightarrow> length (filter (\<lambda>x. f x = a) xs) = (if a \<in> f ` set xs then 1 else 0)"
  by (induction xs) auto

text \<open>
  Claim C6. In a project whose clip ids are pairwise distinct (the data model's
  invariant on clip ids), after \<open>handleSelectClip cid\<close> the number of selected clips over
  all tracks is one if some clip has the id \<open>cid\<close> and zero otherwise. In any project
  the selected clips are exactly those whose id is \<open>cid\<close>; the tracks are unchanged up
  to the selection flags of their clips, and the loop region is unchanged.
\<close>

theorem select_clip_exclusive:
  assumes "distinct (map clipId (allClips (tracks p)))"
  shows "length (filter isSelected (allClips (tracks (handleSelectClip cid p))))
           = (if cid \<in> clipId ` set (allClips (tracks p)) then 1 else 0)
       \<and> (\<forall>c \<in> set (allClips (tracks (handleSelectClip cid p))). isSelected c \<longleftrightarrow> clipId c = cid)
       \<and> map deselect (tracks (handleSelectClip cid p)) = map deselect (tracks p)
       \<and> loopRegion (handleSelectClip cid p) = loopRegion p"
proof -
  have "filter isSelected (allClips (tracks (handleSelectClip cid p)))
          = map (\<lambda>c. c\<lparr>isSelected := (clipId c = cid)\<rparr>)
              (filter (\<lambda>c. clipId c = cid) (allClips (tracks p)))"
    by (simp add: allClips_select filter_map comp_def)
  then have "length (filter isSelected (allClips (tracks (handleSelectClip cid p))))
          = length (filter (\<lambda>c. clipId c = cid) (allClips (tracks p)))"
    by simp
  moreover have "\<forall>c \<in> set (allClips (tracks (handleSelectClip cid p))).
                   isSelected c \<longleftrightarrow> clipId c = cid"
    by (auto simp: allClips_select)
  moreover have "map deselect (tracks (handleSelectClip cid p)) = map deselect (tracks p)"
    by (simp add: handleSelectClip_def deselect_def comp_def)
  moreover have "loopRegion (handleSelectClip cid p) = loopRegion p"
    by (simp add: handleSelectClip_def)
  ultimately show ?thesis
    using count_distinct_key[OF assms, of cid] by simp
qed

theorem select_clip_exclusive_witness:
  "distinct (map clipId (allClips (tracks demoProject)))
   \<and> length (filter isSelected (allClips (tracks (handleSelectClip ''c1'' demoProject)))) = 1
   \<and> length (filter isSelected (allClips (tracks (handleSelectClip [] selectedProject)))) = 0
   \<and> map deselect (tracks (handleSelectClip ''c1'' demoProject)) = map deselect (tracks demoProject)"
  using select_clip_exclusive [of demoProject "''c1''"]
        select_clip_exclusive [of selectedProject "[]"]
  by (simp add: selectedProject_def handleSelectClip_def demoProject_def demoTrack_def
      midiTrack_def demoClip_def allClips_def deselect_def)

section \<open>Split\<close>


lemma find_none: "\<forall>x \<in> set xs. \<not> P x \<Longrightarrow> find P xs = None"
  by (induction xs) auto



lemma getSelectedClip_none:
  "\<forall>t \<in> set ts. \<forall>x \<in> set (clips t). \<not> isSelected x \<Longrightarrow> getSelectedClip ts = None"
  by (induction ts) (auto simp: find_none)

lemma handleSplit_no_selection:
  "\<forall>t \<in> set (tracks p). \<forall>x \<in> set (clips t). \<not> isSelected x \<Longrightarrow> handleSplit t0 newId p = p"
  by (simp add: handleSplit_def getSelectedClip_none)












section \<open>Export\<close>

lemma Max_insert_max:
  "finite S \<Longrightarrow> Max (insert (max a b) S) = Max (insert a (insert b S))"
  by (cases "S = {}") (auto simp: max.assoc)

lemma foldl_max:
  "foldl (\<lambda>m c. max m (f c)) a xs = Max (insert a (f ` set xs))"
  by (induction xs arbitrary: a) (simp_all add: Max_insert_max)

lemma Max_insert_Max:
  assumes "finite A" and "finite B"
  shows "Max (insert (Max (insert a A)) B) = Max (insert a (A \<union> B))"
proof (cases "B = {}")
  case True
  then show ?thesis by simp
next
  case False
  have "Max (insert a A \<union> B) = max (Max (insert a A)) (Max B)"
    by (rule Max_Un) (use assms False in auto)
  moreover have "Max (insert (Max (insert a A)) B) = max (Max (insert a A)) (Max B)"
    by (rule Max_insert) (use assms False in auto)
  ultimately show ?thesis by simp
qed

lemma totalDuration_Max:
  "foldl (\<lambda>mx track. foldl (\<lambda>clipMax clip. max clipMax (f clip)) mx (clips track)) a ts
     = Max (insert a (f ` set (allClips ts)))"
proof (induction ts arbitrary: a)
  case Nil
  then show ?case by (simp add: allClips_def)
next
  case (Cons t ts)
  have "allClips (t # ts) = clips t @ allClips ts"
    by (simp add: allClips_def)
  then show ?case
    using Cons by (simp add: foldl_max image_Un Max_insert_Max)
qed



lemma Max_insert_zero:
  fixes S :: "real set"
  assumes "finite S" and "S \<noteq> {}" and "\<forall>x \<in> S. 0 \<le> x"
  shows "Max (insert 0 S) = Max S"
proof -
  have "0 \<le> Max S"
    using assms by (auto simp: Max_ge_iff)
  then show ?thesis
    using assms by (simp add: max_absorb2)
qed

lemma map_filter_case:
  "List.map_filter (\<lambda>c. case m (k c) of None \<Rightarrow> None | Some b \<Rightarrow> Some (g c)) cs
     = map g (filter (\<lambda>c. k c \<in> dom m) cs)"
  by (induction cs) (auto split: option.splits)

lemma concat_map_if:
  "concat (map (\<lambda>t. if E t then [] else h t) ts) = concat (map h (filter (\<lambda>t. \<not> E t) ts))"
  by (induction ts) auto

text \<open>
  Claim C8. The total duration is the maximum of 0 and of \<open>startTime + duration\<close> over
  all clips of all tracks, hence the maximum over the clips when there is a clip and no
  clip ends before 0. When it is zero the export does nothing. Otherwise the
  offline context has 2 channels, \<open>\<lceil>totalDuration * sampleRate\<rceil>\<close> frames and the given
  sample rate, and one source is started for every clip with a decoded buffer of every
  audio track that is not muted and that is soloed if any track is, in order, at the
  clip's \<open>startTime\<close> with its \<open>startOffset\<close> and \<open>duration\<close>; each source is
  connected to the destination and to nothing else, so no effect, gain or pan node lies
  on its path.
\<close>

theorem export_plan:
  "totalDuration (tracks p)
     = Max (insert 0 ((\<lambda>c. startTime c + duration c) ` set (allClips (tracks p))))
   \<and> (allClips (tracks p) \<noteq> [] \<and> (\<forall>c \<in> set (allClips (tracks p)). 0 \<le> startTime c + duration c)
        \<longrightarrow> totalDuration (tracks p)
              = Max ((\<lambda>c. startTime c + duration c) ` set (allClips (tracks p))))
   \<and> (totalDuration (tracks p) = 0 \<longrightarrow> handleExportAudio sr bufs p = None)
   \<and> (totalDuration (tracks p) \<noteq> 0 \<longrightarrow>
        handleExportAudio sr bufs p =
          Some \<lparr>numberOfChannels = 2,
                renderLength = \<lceil>totalDuration (tracks p) * sr\<rceil>,
                renderSampleRate = sr,
                renderSources =
                  concat (map (\<lambda>t. map (\<lambda>c. \<lparr>exportFileId = fileId c,
                                               exportOutputs = [DestinationNode],
                                               exportWhen = startTime c,
                                               exportOffset = startOffset c,
                                               exportDuration = duration c\<rparr>)
                                        (filter (\<lambda>c. fileId c \<in> dom bufs) (clips t)))
                              (filter (\<lambda>t. trackType t = Audio \<and> \<not> isMuted t
                                            \<and> ((\<exists>u \<in> set (tracks p). isSoloed u) \<longrightarrow> isSoloed t))
                                      (tracks p)))\<rparr>)"
proof -
  have empty: "totalDuration [] = 0"
    by (simp add: totalDuration_def)
  have nonempty: "tracks p \<noteq> []" if "totalDuration (tracks p) \<noteq> 0"
    using that empty by auto
  show ?thesis
    apply (intro conjI impI)
    subgoal by (simp add: totalDuration_def totalDuration_Max)
    subgoal
      unfolding totalDuration_def totalDuration_Max
      by (rule Max_insert_zero) auto
    subgoal by (simp add: handleExportAudio_def)
    subgoal
      using nonempty
      by (simp add: handleExportAudio_def Let_def map_filter_case[where m=bufs and k=fileId] concat_map_if list_ex_iff
          de_Morgan_disj cong: map_cong)
    done
qed

theorem export_plan_witness:
  "handleExportAudio 44100 demoBuffers demoProject =
          Some \<lparr>numberOfChannels = 2, renderLength = 441000, renderSampleRate = 44100,
                renderSources = [\<lparr>exportFileId = ''f1'', exportOutputs = [DestinationNode],
                                  exportWhen = 0, exportOffset = 0, exportDuration = 10\<rparr>]\<rparr>
   \<and> handleExportAudio 44100 demoBuffers (demoProject\<lparr>tracks := [midiTrack]\<rparr>) = None"
  using export_plan [of demoProject 44100 demoBuffers]
        export_plan [of "demoProject\<lparr>tracks := [midiTrack]\<rparr>" 44100 demoBuffers]
  by (simp add: demoProject_def demoTrack_def midiTrack_def demoClip_def demoBuffers_def
      allClips_def totalDuration_def)

section \<open>The effect chain of a channel strip\<close>

lemma outputs_connect:
  "outputs (connect a b g) n = (if n = a then insert b (outputs g n) else outputs g n)"
  by (auto simp: outputs_def connect_def)

lemma outputs_disconnect:
  "outputs (disconnect m g) n = (if n = m then {} else outputs g n)"
  by (auto simp: outputs_def disconnect_def)

lemma outputs_disconnect_sources:
  "outputs (foldl (\<lambda>g cid. if P cid then disconnect (SourceNode cid) g else g) g srcs) n
     = (if \<exists>cid \<in> set srcs. P cid \<and> n = SourceNode cid then {} else outputs g n)"
  by (induction srcs arbitrary: g) (auto simp: outputs_disconnect)

lemma outputs_disconnect_effects:
  "outputs (foldl (\<lambda>g p. disconnect (snd p) g) g m) n
     = (if n \<in> snd ` set m then {} else outputs g n)"
  by (induction m arbitrary: g) (auto simp: outputs_disconnect)

lemma outputs_connect_sources:
  "outputs (foldl (\<lambda>g clip. if Q clip then connect (SourceNode (clipId clip)) l g else g) g cs) n
     = outputs g n \<union> {b. b = l \<and> (\<exists>c \<in> set cs. Q c \<and> n = SourceNode (clipId c))}"
  by (induction cs arbitrary: g) (auto simp: outputs_connect)

lemma wired_chain:
  fixes es :: "Effect list"
  defines "r \<equiv> \<lambda>g l m k es. foldl wireEffect (g, l, m, k) (rev es)"
  shows "snd (snd (snd (r g l m k es))) = k + length es
       \<and> fst (snd (r g l m k es)) = (if es = [] then l else chainNode k es 0)
       \<and> (\<forall>n. outputs (fst (r g l m k es)) n
               = outputs g n \<union> {b. \<exists>i < length es. n = chainNode k es i
                                   \<and> b = (if Suc i < length es then chainNode k es (Suc i) else l)})"
proof (induction es)
  case Nil
  then show ?case by (simp add: r_def)
next
  case (Cons e es)
  have step: "r g l m k (e # es) = wireEffect (r g l m k es) e"
    by (simp add: r_def)
  have shift: "chainNode k (e # es) (Suc i) = chainNode k es i" for i
    by (simp add: chainNode_def)
  have zero: "chainNode k (e # es) 0 = EffectNode (k + length es) (params e)"
    by (simp add: chainNode_def)
  obtain g' l' m' k' where r: "r g l m k es = (g', l', m', k')"
    by (cases "r g l m k es") auto
  from Cons r have k': "k' = k + length es"
    and l': "l' = (if es = [] then l else chainNode k es 0)"
    and g': "\<And>n. outputs g' n = outputs g n \<union> {b. \<exists>i < length es. n = chainNode k es i
                                   \<and> b = (if Suc i < length es then chainNode k es (Suc i) else l)}"
    by simp_all
  have w: "wireEffect (g', l', m', k') e
             = (connect (EffectNode k' (params e)) l' g', EffectNode k' (params e),
                map_set (effectId e) (EffectNode k' (params e)) m', Suc k')"
    by (simp add: wireEffect_def Let_def)
  have ex_Suc: "(\<exists>i < Suc N. Q i) \<longleftrightarrow> Q 0 \<or> (\<exists>i < N. Q (Suc i))" for N Q
    by (metis less_Suc_eq_0_disj)
  show ?case
    unfolding step r w
    apply (intro conjI allI)
      apply (simp add: k')
     apply (simp add: zero k')
    apply (simp add: outputs_connect g' k' l' ex_Suc shift zero)
    apply (auto simp: chainNode_def)
    done
qed


lemma fresh_outputs:
  "strip_fresh strip \<Longrightarrow> nextNode strip \<le> k \<Longrightarrow> outputs (graph strip) (EffectNode k ps) = {}"
  by (fastforce simp: strip_fresh_def outputs_def list_all_iff)

lemma chainNode_inj:
  "i < length es \<Longrightarrow> j < length es \<Longrightarrow> chainNode k es i = chainNode k es j \<longleftrightarrow> i = j"
  by (auto simp: chainNode_def)

lemma remdups_single:
  "set xs \<subseteq> {b} \<Longrightarrow> xs \<noteq> [] \<Longrightarrow> remdups xs = [b]"
proof (induction xs)
  case Nil
  then show ?case by simp
next
  case (Cons x xs)
  show ?case
  proof (cases xs)
    case Nil
    with Cons.prems show ?thesis by simp
  next
    case (Cons y ys)
    with Cons.prems have "x = b" and "b \<in> set xs" and "set xs \<subseteq> {b}" and "xs \<noteq> []"
      by auto
    with Cons.IH show ?thesis by simp
  qed
qed

lemma successors_single:
  assumes "outputs g n = {b}"
  shows "successors g n = [b]"
proof -
  have "set (map snd (filter (\<lambda>e. fst e = n) g)) = outputs g n"
    by (force simp: outputs_def)
  with assms have "set (map snd (filter (\<lambda>e. fst e = n) g)) = {b}"
    by simp
  then have "remdups (map snd (filter (\<lambda>e. fst e = n) g)) = [b]"
    by (intro remdups_single) (auto simp del: set_map set_filter)
  then show ?thesis
    by (simp add: successors_def)
qed

lemma rebuilt_outputs:
  fixes srcs :: "string list" and track :: Track and strip :: Strip
  assumes "strip_fresh strip"
  defines "g' \<equiv> graph (rebuildChain srcs track strip)"
    and "es \<equiv> effects track"
    and "k \<equiv> nextNode strip"
  shows "c \<in> set (clips track) \<Longrightarrow> clipId c \<in> set srcs \<Longrightarrow>
           outputs g' (SourceNode (clipId c)) = {if es = [] then PannerNode else chainNode k es 0}"
    and "i < length es \<Longrightarrow>
           outputs g' (chainNode k es i)
             = {if Suc i < length es then chainNode k es (Suc i) else PannerNode}"
    and "GainNode \<in> outputs g' PannerNode"
    and "DestinationNode \<in> outputs g' GainNode"
    and "strip_fresh (rebuildChain srcs track strip)"
proof -
  define g1 where "g1 = foldl (\<lambda>g cid. if list_ex (\<lambda>c. clipId c = cid) (clips track)
                               then disconnect (SourceNode cid) g else g) (graph strip) srcs"
  define g2 where "g2 = foldl (\<lambda>g p. disconnect (snd p) g) g1 (effectNodesRef strip)"
  define w where "w = foldl wireEffect (g2, PannerNode, [], k) (rev es)"
  define g4 where "g4 = foldl (\<lambda>g clip. if clipId clip \<in> set srcs
                                then connect (SourceNode (clipId clip)) (fst (snd w)) g
                                else g) (fst w) (clips track)"
  have g': "g' = (let g6 = connect GainNode DestinationNode (connect PannerNode GainNode g4)
                  in if meterNodeRef strip then connect GainNode MeterNode g6 else g6)"
    unfolding g'_def rebuildChain_def g4_def w_def g2_def g1_def es_def k_def Let_def
    by simp
  have o1: "outputs g1 n = (if \<exists>cid \<in> set srcs. list_ex (\<lambda>c. clipId c = cid) (clips track)
                                  \<and> n = SourceNode cid then {} else outputs (graph strip) n)" for n
    unfolding g1_def by (rule outputs_disconnect_sources)
  have o2: "outputs g2 n = (if n \<in> snd ` set (effectNodesRef strip) then {} else outputs g1 n)" for n
    unfolding g2_def by (rule outputs_disconnect_effects)
  have l: "fst (snd w) = (if es = [] then PannerNode else chainNode k es 0)"
    unfolding w_def using wired_chain[of g2 PannerNode "[]" k es] by blast
  have o3: "outputs (fst w) n = outputs g2 n \<union> {b. \<exists>i < length es. n = chainNode k es i
              \<and> b = (if Suc i < length es then chainNode k es (Suc i) else PannerNode)}" for n
    unfolding w_def using wired_chain[of g2 PannerNode "[]" k es] by blast
  have o4: "outputs g4 n = outputs (fst w) n \<union> {b. b = fst (snd w)
              \<and> (\<exists>c \<in> set (clips track). clipId c \<in> set srcs \<and> n = SourceNode (clipId c))}" for n
    unfolding g4_def by (rule outputs_connect_sources)
  have o': "outputs g' n = outputs g4 n" if "n \<noteq> PannerNode" "n \<noteq> GainNode" for n
    using that by (simp add: g' Let_def outputs_connect)
  have cn: "chainNode k es i = EffectNode (k + (length es - 1 - i)) (params (es ! i))" for i
    by (simp add: chainNode_def)
  have old: "outputs (graph strip) (chainNode k es i) = {}" for i
    unfolding cn by (rule fresh_outputs[OF assms(1)]) (simp add: k_def)
  show "outputs g' (SourceNode (clipId c)) = {if es = [] then PannerNode else chainNode k es 0}"
    if "c \<in> set (clips track)" "clipId c \<in> set srcs"
  proof -
    have "outputs g1 (SourceNode (clipId c)) = {}"
      using that by (auto simp: o1 list_ex_iff)
    then have "outputs g2 (SourceNode (clipId c)) = {}"
      by (simp add: o2)
    then have "outputs (fst w) (SourceNode (clipId c)) = {}"
      by (simp add: o3 cn)
    then have "outputs g4 (SourceNode (clipId c)) = {fst (snd w)}"
      using that by (auto simp: o4)
    then show ?thesis
      by (simp add: o' l)
  qed
  show "outputs g' (chainNode k es i)
             = {if Suc i < length es then chainNode k es (Suc i) else PannerNode}"
    if "i < length es"
  proof -
    have "outputs g2 (chainNode k es i) = {}"
      using old[of i] by (simp add: o2 o1 cn)
    then have "outputs (fst w) (chainNode k es i)
                 = {b. \<exists>j < length es. chainNode k es i = chainNode k es j
                     \<and> b = (if Suc j < length es then chainNode k es (Suc j) else PannerNode)}"
      by (simp add: o3)
    also have "\<dots> = {if Suc i < length es then chainNode k es (Suc i) else PannerNode}"
      using that by (auto simp: chainNode_inj)
    finally have "outputs g4 (chainNode k es i)
                 = {if Suc i < length es then chainNode k es (Suc i) else PannerNode}"
      by (simp add: o4 cn)
    then show ?thesis
      by (simp add: o' cn)
  qed
  show "GainNode \<in> outputs g' PannerNode"
    by (simp add: g' Let_def outputs_connect)
  show "DestinationNode \<in> outputs g' GainNode"
    by (simp add: g' Let_def outputs_connect)
  have next': "nextNode (rebuildChain srcs track strip) = k + length es"
    using wired_chain[of g2 PannerNode "[]" k es]
    by (simp add: rebuildChain_def Let_def w_def[symmetric] g2_def g1_def es_def k_def)
  have "j < k + length es" if "b \<in> outputs g' (EffectNode j ps)" for j ps b
  proof (rule ccontr)
    assume "\<not> j < k + length es"
    then have far: "k + length es \<le> j" by simp
    then have "outputs (graph strip) (EffectNode j ps) = {}"
      by (intro fresh_outputs[OF assms(1)]) (simp add: k_def)
    moreover have "EffectNode j ps \<noteq> chainNode k es i" if "i < length es" for i
      using far that by (auto simp: cn)
    ultimately have "outputs g4 (EffectNode j ps) = {}"
      by (auto simp: o4 o3 o2 o1)
    with that show False
      by (simp add: o')
  qed
  then show "strip_fresh (rebuildChain srcs track strip)"
    unfolding strip_fresh_def list_all_iff next' g'_def[symmetric]
    by (auto simp: outputs_def split: Node.splits)
qed

lemma path_effects:
  fixes es :: "Effect list"
  assumes "\<And>i. i < length es \<Longrightarrow>
             successors g (chainNode k es i)
               = [if Suc i < length es then chainNode k es (Suc i) else PannerNode]"
  shows "i \<le> length es \<Longrightarrow> length es - i \<le> fuel \<Longrightarrow>
         successors g X = [if i < length es then chainNode k es i else PannerNode] \<Longrightarrow>
         effectsOnPath fuel g X = map params (drop i es)"
proof (induction "length es - i" arbitrary: i fuel X)
  case 0
  then show ?case by (cases fuel) simp_all
next
  case (Suc d)
  then obtain f where fuel: "fuel = Suc f" and f: "length es - Suc i \<le> f"
    by (cases fuel) auto
  from Suc have i: "i < length es" by simp
  have "effectsOnPath f g (chainNode k es i) = map params (drop (Suc i) es)"
    by (rule Suc.hyps(1)) (use Suc.hyps(2) i f assms[OF i] in auto)
  then show ?case
    using Suc.prems(3) i
    by (simp add: fuel chainNode_def[of k es i] Cons_nth_drop_Suc[symmetric])
qed

text \<open>
  Claim C4. Rebuild the chain of a track with the declared effects \<open>es\<close> in a strip
  whose node numbers are fresh. Then every clip source of the track flows into the node
  of the first declared effect and nowhere else, the node of the effect at position
  \<open>i\<close> flows into the node of the effect at position \<open>i + 1\<close> and nowhere else, the
  node of the last one into the panner, and the panner is connected to the gain and the
  gain to the destination. Though the nodes are created and connected from the last
  effect to the first, the effects met along the signal path from a clip source are the
  declared list in its order, position 0 first; without effects a source flows into
  the panner.
\<close>

theorem effect_chain_order:
  fixes srcs :: "string list" and track :: Track and strip :: Strip
  assumes "strip_fresh strip"
  shows "(let g' = graph (rebuildChain srcs track strip);
              es = effects track;
              n = length es;
              node = chainNode (nextNode strip) es
          in (\<forall>c \<in> set (clips track). clipId c \<in> set srcs \<longrightarrow>
                 outputs g' (SourceNode (clipId c)) = {if n = 0 then PannerNode else node 0}
                 \<and> (\<forall>fuel \<ge> n. effectsOnPath fuel g' (SourceNode (clipId c)) = map params es))
             \<and> (\<forall>i < n. outputs g' (node i) = {if Suc i < n then node (Suc i) else PannerNode})
             \<and> GainNode \<in> outputs g' PannerNode
             \<and> DestinationNode \<in> outputs g' GainNode)"
proof -
  note ro = rebuilt_outputs[OF assms, where track=track and srcs=srcs]
  have path: "effectsOnPath fuel (graph (rebuildChain srcs track strip)) (SourceNode (clipId c))
                = map params (effects track)"
    if "c \<in> set (clips track)" "clipId c \<in> set srcs" "length (effects track) \<le> fuel" for c fuel
    using path_effects[of "effects track" "graph (rebuildChain srcs track strip)" "nextNode strip"
            0 fuel "SourceNode (clipId c)"]
      successors_single[OF ro(1)[OF that(1,2)]] successors_single[OF ro(2)] that(3)
    by simp
  show ?thesis
    unfolding Let_def
    using ro(1) ro(2) ro(3) ro(4) path by simp
qed


theorem effect_chain_order_witness:
  "strip_fresh newStrip
   \<and> graph (rebuildChain [''c1''] fxTrack newStrip)
       = [(EffectNode 0 (params demoCompressor), PannerNode),
          (EffectNode 1 (params demoEQ), EffectNode 0 (params demoCompressor)),
          (SourceNode ''c1'', EffectNode 1 (params demoEQ)),
          (PannerNode, GainNode), (GainNode, DestinationNode)]
   \<and> outputs (graph (rebuildChain [''c1''] fxTrack newStrip)) (SourceNode ''c1'')
       = {EffectNode 1 (params demoEQ)}
   \<and> effectsOnPath 2 (graph (rebuildChain [''c1''] fxTrack newStrip)) (SourceNode ''c1'')
       = [params demoEQ, params demoCompressor]"
  using effect_chain_order [of newStrip "[''c1'']" fxTrack]
  by (simp add: strip_fresh_def newStrip_def fxTrack_def demoTrack_def demoClip_def demoEQ_def
      demoCompressor_def rebuildChain_def wireEffect_def connect_def disconnect_def Let_def
      chainNode_def)

section \<open>Loading and saving the project\<close>

lemma getProject_tracks:
  "store key = Some s \<Longrightarrow>
     getProject uuid key store
       = Some \<lparr>tracks = migrateTracks uuid 0 (storedTracks s), loopRegion = storedRegion s\<rparr>"
  by (cases s) (simp_all add: getProject_def)

lemma migrateTrack_fields:
  "migrateTrack newId t =
     \<lparr>trackId = storedId t, trackName = storedName t,
      trackType = (case storedTrackType t of None \<Rightarrow> Audio | Some ty \<Rightarrow> ty),
      volume = storedVolume t, pan = storedPan t, isMuted = storedIsMuted t,
      isSoloed = storedIsSoloed t, effects = storedEffects t, clips = loadedClips newId t\<rparr>"
  by (simp add: migrateTrack_def loadedClips_def Let_def split: option.splits)

lemma migrateTracks_ids: "map trackId (migrateTracks uuid i ts) = map storedId ts"
  by (induction ts arbitrary: i) (auto simp: migrateTrack_fields)

lemma loadedClips_ids:
  "map clipId (loadedClips newId t)
     = (case storedClips t of
          Some cs \<Rightarrow> map clipId cs
        | None \<Rightarrow> (case storedAudioClip t of None \<Rightarrow> [] | Some a \<Rightarrow> [newId]))"
  by (simp add: loadedClips_def comp_def split: option.splits)

lemma migrateTracks_clipIds:
  "map clipId (allClips (migrateTracks uuid i ts)) = storedClipIds uuid i ts"
  by (induction ts arbitrary: i)
     (simp_all add: allClips_def migrateTrack_fields loadedClips_ids)

lemma loadedClips_deselected: "c \<in> set (loadedClips newId t) \<Longrightarrow> \<not> isSelected c"
  by (auto simp: loadedClips_def split: option.splits)

lemma migrateTracks_deselected:
  "c \<in> set (allClips (migrateTracks uuid i ts)) \<Longrightarrow> \<not> isSelected c"
  by (induction ts arbitrary: i)
     (auto simp: allClips_def migrateTrack_fields dest: loadedClips_deselected)

lemma placed_clip_inv_deselect:
  "placed_clip_inv eps (c\<lparr>isSelected := b\<rparr>) \<longleftrightarrow> placed_clip_inv eps c"
  by (simp add: placed_clip_inv_def clip_inv_def)

lemma migrateTrack_inv:
  "0 \<le> eps \<Longrightarrow> track_inv eps (migrateTrack newId t) \<longleftrightarrow> stored_track_inv eps t"
  by (auto simp: track_inv_def stored_track_inv_def migrateTrack_fields loadedClips_def
      list_all_iff placed_clip_inv_deselect placed_clip_inv_def clip_inv_def
      split: option.splits)

lemma migrateTracks_inv:
  "0 \<le> eps \<Longrightarrow>
     list_all (track_inv eps) (migrateTracks uuid i ts) \<longleftrightarrow> list_all (stored_track_inv eps) ts"
  by (induction ts arbitrary: i) (simp_all add: migrateTrack_inv)

lemma loaded_inv:
  assumes "0 \<le> eps"
  shows "project_inv eps \<lparr>tracks = migrateTracks uuid 0 (storedTracks s), loopRegion = storedRegion s\<rparr>
           \<longleftrightarrow> stored_inv eps uuid s"
proof -
  have "filter isSelected (allClips (migrateTracks uuid 0 (storedTracks s))) = []"
    by (auto simp: filter_empty_conv dest: migrateTracks_deselected)
  then show ?thesis
    using assms
    by (simp add: project_inv_def stored_inv_def migrateTracks_ids migrateTracks_clipIds
        migrateTracks_inv)
qed

lemma roundtrip_tracks: "migrateTracks uuid i (map storeTrack ts) = map deselect ts"
  by (induction ts arbitrary: i)
     (simp_all add: migrateTrack_def storeTrack_def deselect_def)

lemma allClips_deselect:
  "allClips (map deselect ts) = map (\<lambda>c. c\<lparr>isSelected := False\<rparr>) (allClips ts)"
  by (simp add: allClips_def deselect_def map_concat comp_def)

lemma deselect_inv:
  assumes "project_inv eps pr"
  shows "project_inv eps (pr\<lparr>tracks := map deselect (tracks pr)\<rparr>)"
proof -
  have "track_inv eps (deselect t) \<longleftrightarrow> track_inv eps t" for t
    by (simp add: track_inv_def deselect_def list_all_iff placed_clip_inv_deselect)
  moreover have "trackId \<circ> deselect = trackId"
    by (auto simp: deselect_def)
  moreover have "filter isSelected (allClips (map deselect (tracks pr))) = []"
    by (auto simp: allClips_deselect filter_empty_conv)
  ultimately show ?thesis
    using assms
    by (simp add: project_inv_def allClips_deselect comp_def list_all_iff deselect_def)
qed


lemma migrateTracks_enumerate:
  "migrateTracks uuid i ts = map (\<lambda>(j, t). migrateTrack (uuid j) t) (enumerate i ts)"
  by (induction ts arbitrary: i) simp_all

text \<open>
  Claim C9 as stated fails, because loading does not validate what it reads: the project
  with the loop region from 1 to 1, saved when the set-loop gesture is released, is loaded
  back as it is, and satisfies the invariants of the data model for no tolerance; and a
  track stored in the oldest schema with volume 2 is upgraded with that volume.
\<close>

theorem load_keeps_stored_values:
  "getProject (\<lambda>i. ''u'') ''currentProject''
       (saveProject ''currentProject'' pointLoopProject Map.empty)
     = Some pointLoopProject
   \<and> loopRegion pointLoopProject = Some \<lparr>loopStart = 1, loopEnd = 1\<rparr>
   \<and> (\<forall>eps. \<not> project_inv eps pointLoopProject)
   \<and> getProject (\<lambda>i. ''u'') ''currentProject''
        [''currentProject'' \<mapsto> TrackArray [legacyTrack\<lparr>storedVolume := 2\<rparr>]]
       = Some \<lparr>tracks = [demoTrack\<lparr>volume := 2, clips := [demoClip\<lparr>clipId := ''u''\<rparr>]\<rparr>],
               loopRegion = None\<rparr>
   \<and> (\<forall>eps. \<not> project_inv eps
               \<lparr>tracks = [demoTrack\<lparr>volume := 2, clips := [demoClip\<lparr>clipId := ''u''\<rparr>]\<rparr>],
                loopRegion = None\<rparr>)"
  by (simp add: pointLoopProject_def setLoopMove_def demoProject_def getProject_def
      saveProject_def storeTrack_def migrateTrack_def demoTrack_def midiTrack_def demoClip_def
      project_inv_def region_inv_def legacyTrack_def track_inv_def)

text \<open>
  Claim C9, amended. Loading a stored value yields a project in the current shape: the
  loop region is the stored one, and none for a bare track array; a missing
  \<open>trackType\<close> becomes \<open>Audio\<close>; a track with an inline \<open>audioClip\<close> and no
  \<open>clips\<close> gets the one clip with a fresh id, \<open>startOffset = 0\<close> and
  \<open>sourceDuration = duration\<close>, a track with neither gets no clip, and stored clips
  are kept; every clip is unselected; all other fields are as stored. For a tolerance
  \<open>eps \<ge> 0\<close> the loaded project satisfies the invariants of the data model exactly
  when the stored value does. Saving a project and loading it returns the project with
  its selection flags cleared, which satisfies the invariants when the saved one did.
\<close>

theorem load_upgrades_shape:
  assumes "store key = Some s" and "0 \<le> eps"
  shows "(let p = \<lparr>tracks =
                     map (\<lambda>(i, t).
                           \<lparr>trackId = storedId t, trackName = storedName t,
                            trackType = (case storedTrackType t of None \<Rightarrow> Audio | Some ty \<Rightarrow> ty),
                            volume = storedVolume t, pan = storedPan t,
                            isMuted = storedIsMuted t, isSoloed = storedIsSoloed t,
                            effects = storedEffects t, clips = loadedClips (uuid i) t\<rparr>)
                         (enumerate 0 (storedTracks s)),
                   loopRegion = storedRegion s\<rparr>
          in getProject uuid key store = Some p
             \<and> (\<forall>c \<in> set (allClips (tracks p)). \<not> isSelected c)
             \<and> (project_inv eps p \<longleftrightarrow> stored_inv eps uuid s))
       \<and> getProject uuid key (saveProject key pr store)
           = Some (pr\<lparr>tracks := map deselect (tracks pr)\<rparr>)
       \<and> (project_inv eps pr \<longrightarrow> project_inv eps (pr\<lparr>tracks := map deselect (tracks pr)\<rparr>))"
proof -
  have shape: "map (\<lambda>(i, t).
                           \<lparr>trackId = storedId t, trackName = storedName t,
                            trackType = (case storedTrackType t of None \<Rightarrow> Audio | Some ty \<Rightarrow> ty),
                            volume = storedVolume t, pan = storedPan t,
                            isMuted = storedIsMuted t, isSoloed = storedIsSoloed t,
                            effects = storedEffects t, clips = loadedClips (uuid i) t\<rparr>)
                         (enumerate 0 (storedTracks s))
                 = migrateTracks uuid 0 (storedTracks s)"
    by (simp add: migrateTracks_enumerate migrateTrack_fields)
  have load: "getProject uuid key store
                = Some \<lparr>tracks = migrateTracks uuid 0 (storedTracks s), loopRegion = storedRegion s\<rparr>"
    using assms(1) by (rule getProject_tracks)
  have desel: "\<forall>c \<in> set (allClips (migrateTracks uuid 0 (storedTracks s))). \<not> isSelected c"
    using migrateTracks_deselected by blast
  have save: "getProject uuid key (saveProject key pr store)
           = Some (pr\<lparr>tracks := map deselect (tracks pr)\<rparr>)"
    by (simp add: getProject_def saveProject_def roundtrip_tracks)
  show ?thesis
    unfolding Let_def shape
    using load desel loaded_inv[OF assms(2), of uuid s] save deselect_inv[of eps pr]
    by simp
qed

theorem load_upgrades_shape_witness:
  "getProject (\<lambda>i. ''u'') ''currentProject'' [''currentProject'' \<mapsto> TrackArray [legacyTrack]]
     = Some \<lparr>tracks = [demoTrack\<lparr>clips := [demoClip\<lparr>clipId := ''u''\<rparr>]\<rparr>], loopRegion = None\<rparr>
   \<and> stored_inv 0 (\<lambda>i. ''u'') (TrackArray [legacyTrack])
   \<and> project_inv 0 \<lparr>tracks = [demoTrack\<lparr>clips := [demoClip\<lparr>clipId := ''u''\<rparr>]\<rparr>], loopRegion = None\<rparr>
   \<and> getProject (\<lambda>i. ''u'') ''currentProject''
        (saveProject ''currentProject'' selectedProject [''currentProject'' \<mapsto> TrackArray [legacyTrack]])
       = Some demoProject
   \<and> project_inv 0 selectedProject
   \<and> project_inv 0 demoProject"
  using load_upgrades_shape [of "[''currentProject'' \<mapsto> TrackArray [legacyTrack]]"
          "''currentProject''" "TrackArray [legacyTrack]" 0 "\<lambda>i. ''u''" selectedProject]
  by (simp add: legacyTrack_def demoTrack_def demoClip_def demoProject_def midiTrack_def
      selectedProject_def handleSelectClip_def deselect_def stored_inv_def
      stored_track_inv_def project_inv_def track_inv_def placed_clip_inv_def clip_inv_def
      region_inv_def allClips_def loadedClips_def Let_def)

end
